theory Spec2Isabelle
  imports Main
begin

section \<open>The Meffec relay server\<close>

text \<open>
  A shallow embedding of \<^verbatim>\<open>Server/data_models.py\<close> and \<^verbatim>\<open>Server/meffec_server.py\<close>.

  \<^item> A decoded JSON frame is a value of \<open>json\<close>; a Python dict is an association list
    read with \<open>map_of\<close>, and \<open>d[k]\<close> is \<open>getitem\<close>, which raises as Python does.
  \<^item> Every \<open>ConnectedMeffecClient\<close> object is created by one connection handler around
    one websocket object, and the generated dataclass equality compares the websocket
    first, so two client objects are equal exactly when they are the same object. A
    client object is therefore addressed by its websocket, a \<open>nat\<close>; the mutable
    fields live in the store \<open>clients\<close>, and both the registry list and the controller
    reference hold addresses (they alias the same object, as in the source).
  \<^item> The environment is part of the state: \<open>closed\<close> holds the websockets whose
    \<open>send\<close> raises \<open>ConnectionClosed\<close>, and \<open>sent\<close> logs every frame written, in order,
    as the value given to \<open>json.dumps\<close>.
  \<^item> A raise is the outcome \<open>Raised\<close>; it carries the state reached at the raise,
    since the source mutates before it fails.
  \<^item> Each handler invocation runs to completion: no other coroutine is interleaved at
    an \<open>await\<close>. A run of the model is the run of the server in which no send suspends,
    so what a theorem shows on a concrete run is what the server does on that run; a
    lemma about every state speaks of one handler taken alone.
\<close>

subsection \<open>Data model\<close>

datatype json =
    JNull
  | JBool bool
  | JNum int
  | JStr string
  | JList "json list"
  | JObj "(string \<times> json) list"

datatype py_error =
    KeyError | TypeError | IndexError | ValueError | AttributeError | ConnectionClosed

datatype MeffecClientType = APP | CONTROLLER | DEVICE

fun client_type_value :: "MeffecClientType \<Rightarrow> string" where
  "client_type_value APP = ''app''"
| "client_type_value CONTROLLER = ''controller''"
| "client_type_value DEVICE = ''device''"

definition get_client_type :: "json \<Rightarrow> MeffecClientType option" where
  "get_client_type type_name =
     find (\<lambda>client_type. JStr (client_type_value client_type) = type_name)
       [APP, CONTROLLER, DEVICE]"

record ConnectedMeffecClient =
  type :: "MeffecClientType option"
  name :: json

record world =
  clients :: "nat \<Rightarrow> ConnectedMeffecClient"
  connected_clients :: "nat list"
  available_effects :: json
  controller_client :: "nat option"
  closed :: "nat set"
  sent :: "(nat \<times> json) list"

datatype outcome = Done world | Raised py_error world

definition server_information :: world where
  "server_information =
     \<lparr>clients = (\<lambda>_. \<lparr>type = None, name = JNull\<rparr>),
      connected_clients = [],
      available_effects = JObj [],
      controller_client = None,
      closed = {},
      sent = []\<rparr>"

fun state_of :: "outcome \<Rightarrow> world" where
  "state_of (Done s) = s"
| "state_of (Raised e s) = s"

definition and_then :: "outcome \<Rightarrow> (world \<Rightarrow> outcome) \<Rightarrow> outcome" where
  "and_then r f = (case r of Done s \<Rightarrow> f s | Raised e s \<Rightarrow> Raised e s)"

fun getitem :: "json \<Rightarrow> string \<Rightarrow> py_error + json" where
  "getitem (JObj kvs) k = (case map_of kvs k of None \<Rightarrow> Inl KeyError | Some v \<Rightarrow> Inr v)"
| "getitem _ k = Inl TypeError"

definition websocket_send :: "nat \<Rightarrow> json \<Rightarrow> world \<Rightarrow> outcome" where
  "websocket_send ws frame s =
     (if ws \<in> closed s then Raised ConnectionClosed s
      else Done (s\<lparr>sent := sent s @ [(ws, frame)]\<rparr>))"

subsection \<open>The authentication gate\<close>

text \<open>
  \<open>str.split(sep)\<close> for a non-empty separator: the pieces between the non-overlapping
  occurrences of \<open>sep\<close>, found from the left.
\<close>

function py_split :: "string \<Rightarrow> string \<Rightarrow> string \<Rightarrow> string list" where
  "py_split sep cur [] = [cur]"
| "py_split sep cur (c # cs) =
     (if sep \<noteq> [] \<and> take (length sep) (c # cs) = sep
      then cur # py_split sep [] (drop (length sep) (c # cs))
      else py_split sep (cur @ [c]) cs)"
  by pat_completeness auto
termination
  by (relation "measure (\<lambda>(sep, cur, s). length s)") auto

datatype http_status = UNAUTHORIZED

type_synonym http_response = "http_status \<times> (string \<times> string) list \<times> string"

definition process_request :: "string \<Rightarrow> string \<Rightarrow> py_error + http_response option" where
  "process_request TOKEN path =
     (let pieces = py_split ''?token=$'' [] path in
      if length pieces \<le> 1 then Inl IndexError
      else let token = pieces ! 1 in
        if token \<noteq> TOKEN
        then Inr (Some (UNAUTHORIZED, [], ''Invalid or missing token'' @ [CHR 0x0A]))
        else Inr None)"

subsection \<open>Roster and catalog pushes\<close>

definition get_controller_information :: "ConnectedMeffecClient \<Rightarrow> py_error + json" where
  "get_controller_information self =
     (case type self of
        None \<Rightarrow> Inl AttributeError
      | Some t \<Rightarrow> Inr (JObj [(''type'', JStr (client_type_value t)), (''name'', name self)]))"

fun comprehension :: "(py_error + 'a) list \<Rightarrow> py_error + 'a list" where
  "comprehension [] = Inr []"
| "comprehension (x # xs) =
     (case x of
        Inl e \<Rightarrow> Inl e
      | Inr v \<Rightarrow> (case comprehension xs of Inl e \<Rightarrow> Inl e | Inr vs \<Rightarrow> Inr (v # vs)))"

definition roster_frame :: "json list \<Rightarrow> json" where
  "roster_frame roster =
     JObj [(''type'', JStr ''information''),
           (''data'', JObj [(''type'', JStr ''connected_clients''), (''data'', JList roster)])]"

definition send_connected_clients_to_controller :: "world \<Rightarrow> outcome" where
  "send_connected_clients_to_controller s =
     (case controller_client s of
        None \<Rightarrow> Done s
      | Some controller \<Rightarrow>
          (case comprehension
                  (map (\<lambda>client. get_controller_information (clients s client))
                     (connected_clients s)) of
             Inl e \<Rightarrow> Raised e s
           | Inr roster \<Rightarrow> websocket_send controller (roster_frame roster) s))"

definition effects_frame :: "json \<Rightarrow> json" where
  "effects_frame effects =
     JObj [(''type'', JStr ''information''),
           (''data'', JObj [(''type'', JStr ''available_effects''), (''data'', effects)])]"

definition send_effects_to_app_client :: "nat \<Rightarrow> world \<Rightarrow> outcome" where
  "send_effects_to_app_client client s =
     websocket_send client (effects_frame (available_effects s)) s"

text \<open>
  A \<open>for client in server_information.connected_clients\<close> loop reads the live list:
  the iterator is an index into it, each round reads the element at the index, if there
  is one, and advances the index by one. The first raise of the body ends the loop.
\<close>

function effects_loop :: "nat \<Rightarrow> world \<Rightarrow> outcome" where
  "effects_loop i s =
     (if i < length (connected_clients s)
      then (let client = connected_clients s ! i in
            if type (clients s client) = Some APP
            then (case send_effects_to_app_client client s of
                    Done s' \<Rightarrow> effects_loop (Suc i) s'
                  | Raised e s' \<Rightarrow> Raised e s')
            else effects_loop (Suc i) s)
      else Done s)"
  by pat_completeness auto
termination
  by (relation "measure (\<lambda>(i, s). length (connected_clients s) - i)")
     (auto simp: send_effects_to_app_client_def websocket_send_def split: if_splits)

definition send_effects_to_all_connected_app_clients :: "world \<Rightarrow> outcome" where
  "send_effects_to_all_connected_app_clients s = effects_loop 0 s"

subsection \<open>Registry operations and message handlers\<close>

definition list_remove :: "nat \<Rightarrow> world \<Rightarrow> outcome" where
  "list_remove client s =
     (if client \<in> set (connected_clients s)
      then Done (s\<lparr>connected_clients := remove1 client (connected_clients s)\<rparr>)
      else Raised ValueError s)"

definition disconnect_client :: "nat \<Rightarrow> world \<Rightarrow> outcome" where
  "disconnect_client client s =
     and_then (list_remove client s) send_connected_clients_to_controller"

definition authenticate_client :: "nat \<Rightarrow> json \<Rightarrow> world \<Rightarrow> outcome" where
  "authenticate_client client message s =
     (case getitem message ''type'' of
        Inl e \<Rightarrow> Raised e s
      | Inr type_name \<Rightarrow>
          (let t = get_client_type type_name;
               s1 = s\<lparr>clients := (clients s)(client := (clients s client)\<lparr>type := t\<rparr>)\<rparr>
           in case getitem message ''name'' of
                Inl e \<Rightarrow> Raised e s1
              | Inr n \<Rightarrow>
                  (let s2 = s1\<lparr>clients := (clients s1)(client := (clients s1 client)\<lparr>name := n\<rparr>)\<rparr>;
                       s3 = (if t = Some CONTROLLER
                             then s2\<lparr>controller_client := Some client\<rparr> else s2)
                   in and_then
                        (if t = Some APP then send_effects_to_app_client client s3 else Done s3)
                        send_connected_clients_to_controller)))"

definition process_information :: "json \<Rightarrow> world \<Rightarrow> outcome" where
  "process_information message s =
     (case getitem message ''type'' of
        Inl e \<Rightarrow> Raised e s
      | Inr t \<Rightarrow>
          if t = JStr ''available_effects''
          then (case getitem message ''data'' of
                  Inl e \<Rightarrow> Raised e s
                | Inr effects \<Rightarrow>
                    send_effects_to_all_connected_app_clients (s\<lparr>available_effects := effects\<rparr>))
          else Done s)"

definition device_action_frame :: "json \<Rightarrow> json" where
  "device_action_frame payload =
     JObj [(''type'', JStr ''device_action''), (''data'', payload)]"

function device_action_loop :: "json \<Rightarrow> nat \<Rightarrow> world \<Rightarrow> outcome" where
  "device_action_loop device_action i s =
     (if i < length (connected_clients s)
      then (let client = connected_clients s ! i in
            if type (clients s client) = Some DEVICE
            then (case getitem device_action ''data'' of
                    Inl e \<Rightarrow> Raised e s
                  | Inr payload \<Rightarrow>
                      (case websocket_send client (device_action_frame payload) s of
                         Done s' \<Rightarrow> device_action_loop device_action (Suc i) s'
                       | Raised e s' \<Rightarrow> Raised e s'))
            else device_action_loop device_action (Suc i) s)
      else Done s)"
  by pat_completeness auto
termination
  by (relation "measure (\<lambda>(d, i, s). length (connected_clients s) - i)")
     (auto simp: websocket_send_def split: if_splits)

definition forward_device_action :: "json \<Rightarrow> world \<Rightarrow> outcome" where
  "forward_device_action device_action s =
     (case getitem device_action ''device'' of
        Inl e \<Rightarrow> Raised e s
      | Inr device \<Rightarrow> device_action_loop device_action 0 s)"

text \<open>
  The two loops below remove from \<open>connected_clients\<close> while they iterate over it.
\<close>

function relay_loop :: "json \<Rightarrow> nat \<Rightarrow> world \<Rightarrow> outcome" where
  "relay_loop message_json i s =
     (if i < length (connected_clients s)
      then (let client = connected_clients s ! i in
            case websocket_send client message_json s of
              Done s' \<Rightarrow> relay_loop message_json (Suc i) s'
            | Raised e s' \<Rightarrow>
                if e = ConnectionClosed
                then (case list_remove client s' of
                        Done s'' \<Rightarrow> relay_loop message_json (Suc i) s''
                      | Raised e' s'' \<Rightarrow> Raised e' s'')
                else Raised e s')
      else Done s)"
  by pat_completeness auto
termination
  by (relation "measure (\<lambda>(m, i, s). length (connected_clients s) - i)")
     (auto simp: websocket_send_def list_remove_def length_remove1 split: if_splits)

definition relay_message_to_all_clients :: "json \<Rightarrow> world \<Rightarrow> outcome" where
  "relay_message_to_all_clients message s = relay_loop message 0 s"

definition heartbeat_frame :: json where
  "heartbeat_frame =
     JObj [(''type'', JStr ''heartbeat''),
           (''data'', JStr ''*imagine a heartbeat sound effect here*'')]"

function heartbeat_loop :: "nat \<Rightarrow> world \<Rightarrow> outcome" where
  "heartbeat_loop i s =
     (if i < length (connected_clients s)
      then (let client = connected_clients s ! i in
            case websocket_send client heartbeat_frame s of
              Done s' \<Rightarrow> heartbeat_loop (Suc i) s'
            | Raised e s' \<Rightarrow>
                if e = ConnectionClosed
                then (case disconnect_client client s' of
                        Done s'' \<Rightarrow> heartbeat_loop (Suc i) s''
                      | Raised e' s'' \<Rightarrow> Raised e' s'')
                else Raised e s')
      else Done s)"
  by pat_completeness auto
termination
  by (relation "measure (\<lambda>(i, s). length (connected_clients s) - i)")
     (auto simp: websocket_send_def disconnect_client_def and_then_def list_remove_def
                 send_connected_clients_to_controller_def length_remove1
           split: if_splits outcome.splits option.splits sum.splits)

text \<open>One pass of the \<open>for\<close> loop of \<open>send_heartbeat_to_all_clients\<close>: one tick.\<close>

definition send_heartbeat_to_all_clients :: "world \<Rightarrow> outcome" where
  "send_heartbeat_to_all_clients s = heartbeat_loop 0 s"

definition handle_message :: "nat \<Rightarrow> json \<Rightarrow> world \<Rightarrow> outcome" where
  "handle_message client message s =
     (case getitem message ''type'' of
        Inl e \<Rightarrow> Raised e s
      | Inr t \<Rightarrow>
          if t = JStr ''authentication''
          then (case getitem message ''data'' of
                  Inl e \<Rightarrow> Raised e s
                | Inr d \<Rightarrow> authenticate_client client d s)
          else if t = JStr ''information''
          then (case getitem message ''data'' of
                  Inl e \<Rightarrow> Raised e s
                | Inr d \<Rightarrow> process_information d s)
          else if t = JStr ''device_action''
          then (case getitem message ''data'' of
                  Inl e \<Rightarrow> Raised e s
                | Inr d \<Rightarrow> forward_device_action d s)
          else relay_message_to_all_clients message s)"

subsection \<open>The connection handler\<close>

text \<open>
  \<open>websocket_connection_handler\<close> in three parts: \<open>connect\<close> is the code before the read
  loop, \<open>receive\<close> is one round of the loop on a decoded frame, and \<open>connection_closed\<close>
  is the round in which \<open>recv\<close> raises \<open>ConnectionClosed\<close>. A round that raises runs the
  \<open>finally\<close> block; the handler then ends, normally when the exception was
  \<open>ConnectionClosed\<close> and the block did not raise, and with the exception otherwise.
\<close>

datatype session = Continues world | Ended world | Failed py_error world

fun session_state :: "session \<Rightarrow> world" where
  "session_state (Continues s) = s"
| "session_state (Ended s) = s"
| "session_state (Failed e s) = s"

definition connect :: "nat \<Rightarrow> world \<Rightarrow> world" where
  "connect websocket s =
     s\<lparr>clients := (clients s)(websocket := \<lparr>type = None, name = JNull\<rparr>),
       connected_clients := connected_clients s @ [websocket]\<rparr>"

definition run_finally :: "py_error \<Rightarrow> nat \<Rightarrow> world \<Rightarrow> session" where
  "run_finally e client s =
     (let s1 = (if controller_client s = Some client
                then s\<lparr>controller_client := None\<rparr> else s)
      in case disconnect_client client s1 of
           Raised e' s' \<Rightarrow> Failed e' s'
         | Done s' \<Rightarrow> if e = ConnectionClosed then Ended s' else Failed e s')"

definition receive :: "nat \<Rightarrow> json \<Rightarrow> world \<Rightarrow> session" where
  "receive client message s =
     (case handle_message client message s of
        Done s' \<Rightarrow> Continues s'
      | Raised e s' \<Rightarrow> run_finally e client s')"

definition connection_closed :: "nat \<Rightarrow> world \<Rightarrow> session" where
  "connection_closed client s = run_finally ConnectionClosed client s"

subsection \<open>Frames of the wire protocol\<close>

text \<open>
  The envelopes a client writes, as \<^verbatim>\<open>Controller/websocket_handler.py\<close> builds them in
  \<open>on_server_connected\<close>, \<open>send_effects_to_server\<close> and \<open>send_device_action\<close>.
\<close>

definition authentication_envelope :: "string \<Rightarrow> json \<Rightarrow> json" where
  "authentication_envelope role display_name =
     JObj [(''type'', JStr ''authentication''),
           (''data'', JObj [(''type'', JStr role), (''name'', display_name)])]"

definition available_effects_envelope :: "json \<Rightarrow> json" where
  "available_effects_envelope catalog =
     JObj [(''type'', JStr ''information''),
           (''data'', JObj [(''type'', JStr ''available_effects''), (''data'', catalog)])]"

definition device_action_envelope :: "json \<Rightarrow> json \<Rightarrow> json" where
  "device_action_envelope device payload =
     JObj [(''type'', JStr ''device_action''),
           (''data'', JObj [(''device'', device), (''data'', payload)])]"

subsection \<open>Basic facts\<close>

lemma websocket_send_Done:
  "websocket_send ws frame s = Done s' \<Longrightarrow> connected_clients s' = connected_clients s"
  by (auto simp: websocket_send_def split: if_splits)

lemma websocket_send_Raised:
  "websocket_send ws frame s = Raised e s' \<Longrightarrow> s' = s \<and> e = ConnectionClosed \<and> ws \<in> closed s"
  by (auto simp: websocket_send_def split: if_splits)

lemma send_connected_clients_to_controller_registry:
  "connected_clients (state_of (send_connected_clients_to_controller s)) = connected_clients s"
  by (auto simp: send_connected_clients_to_controller_def websocket_send_def
           split: option.splits sum.splits)

lemma list_remove_Done:
  "list_remove client s = Done s' \<Longrightarrow>
     client \<in> set (connected_clients s) \<and>
     s' = s\<lparr>connected_clients := remove1 client (connected_clients s)\<rparr>"
  by (auto simp: list_remove_def split: if_splits)

lemma disconnect_client_Done:
  "disconnect_client client s = Done s' \<Longrightarrow>
     client \<in> set (connected_clients s) \<and>
     connected_clients s' = remove1 client (connected_clients s)"
proof -
  assume d: "disconnect_client client s = Done s'"
  then obtain s1 where r: "list_remove client s = Done s1"
    and p: "send_connected_clients_to_controller s1 = Done s'"
    by (auto simp: disconnect_client_def and_then_def split: outcome.splits)
  from p have "connected_clients s' = connected_clients s1"
    using send_connected_clients_to_controller_registry [of s1] by simp
  with list_remove_Done [OF r] show ?thesis by simp
qed

declare effects_loop.simps [simp del] device_action_loop.simps [simp del]

lemma effects_loop_open:
  "\<forall>c\<in>set (drop i (connected_clients s)). type (clients s c) = Some APP \<longrightarrow> c \<notin> closed s \<Longrightarrow>
   effects_loop i s =
     Done (s\<lparr>sent := sent s @
             map (\<lambda>c. (c, effects_frame (available_effects s)))
               (filter (\<lambda>c. type (clients s c) = Some APP) (drop i (connected_clients s)))\<rparr>)"
proof (induction i s rule: effects_loop.induct)
  case (1 i s)
  show ?case
  proof (cases "i < length (connected_clients s)")
    case False
    then show ?thesis by (subst effects_loop.simps) simp
  next
    case True
    let ?c = "connected_clients s ! i"
    have dr: "drop i (connected_clients s) = ?c # drop (Suc i) (connected_clients s)"
      using True by (simp add: Cons_nth_drop_Suc)
    show ?thesis
    proof (cases "type (clients s ?c) = Some APP")
      case app: True
      let ?s' = "s\<lparr>sent := sent s @ [(?c, effects_frame (available_effects s))]\<rparr>"
      from "1.prems" dr app have "?c \<notin> closed s" by simp
      then have send: "send_effects_to_app_client ?c s = Done ?s'"
        by (simp add: send_effects_to_app_client_def websocket_send_def)
      have "effects_loop (Suc i) ?s' =
              Done (?s'\<lparr>sent := sent ?s' @
                 map (\<lambda>c. (c, effects_frame (available_effects ?s')))
                   (filter (\<lambda>c. type (clients ?s' c) = Some APP)
                      (drop (Suc i) (connected_clients ?s')))\<rparr>)"
        using "1.prems" dr by (intro "1.IH"(1) [OF True refl app send]) simp
      with True app send dr show ?thesis
        by (subst effects_loop.simps) simp
    next
      case other: False
      have "effects_loop (Suc i) s =
              Done (s\<lparr>sent := sent s @
                 map (\<lambda>c. (c, effects_frame (available_effects s)))
                   (filter (\<lambda>c. type (clients s c) = Some APP)
                      (drop (Suc i) (connected_clients s)))\<rparr>)"
        using "1.prems" dr by (intro "1.IH"(2) [OF True refl other]) simp
      with True other dr show ?thesis
        by (subst effects_loop.simps) simp
    qed
  qed
qed

lemma effects_loop_catalog:
  "available_effects (state_of (effects_loop i s)) = available_effects s"
proof (induction i s rule: effects_loop.induct)
  case (1 i s)
  show ?case
  proof (cases "i < length (connected_clients s)")
    case False
    then show ?thesis by (subst effects_loop.simps) simp
  next
    case True
    let ?c = "connected_clients s ! i"
    show ?thesis
    proof (cases "type (clients s ?c) = Some APP")
      case app: True
      show ?thesis
      proof (cases "send_effects_to_app_client ?c s")
        case (Done s')
        then have "available_effects s' = available_effects s"
          by (auto simp: send_effects_to_app_client_def websocket_send_def split: if_splits)
        with "1.IH"(1) [OF True refl app Done] True app Done show ?thesis
          by (subst effects_loop.simps) simp
      next
        case (Raised e s')
        then have "available_effects s' = available_effects s"
          by (auto simp: send_effects_to_app_client_def websocket_send_def split: if_splits)
        with True app Raised show ?thesis
          by (subst effects_loop.simps) simp
      qed
    next
      case other: False
      with "1.IH"(2) [OF True refl other] True show ?thesis
        by (subst effects_loop.simps) simp
    qed
  qed
qed

lemma device_action_loop_open:
  "getitem device_action ''data'' = Inr payload \<Longrightarrow>
   \<forall>c\<in>set (drop i (connected_clients s)). type (clients s c) = Some DEVICE \<longrightarrow> c \<notin> closed s \<Longrightarrow>
   device_action_loop device_action i s =
     Done (s\<lparr>sent := sent s @
             map (\<lambda>c. (c, device_action_frame payload))
               (filter (\<lambda>c. type (clients s c) = Some DEVICE) (drop i (connected_clients s)))\<rparr>)"
proof (induction device_action i s rule: device_action_loop.induct)
  case (1 device_action i s)
  show ?case
  proof (cases "i < length (connected_clients s)")
    case False
    then show ?thesis by (subst device_action_loop.simps) simp
  next
    case True
    let ?c = "connected_clients s ! i"
    have dr: "drop i (connected_clients s) = ?c # drop (Suc i) (connected_clients s)"
      using True by (simp add: Cons_nth_drop_Suc)
    show ?thesis
    proof (cases "type (clients s ?c) = Some DEVICE")
      case dev: True
      let ?s' = "s\<lparr>sent := sent s @ [(?c, device_action_frame payload)]\<rparr>"
      from "1.prems"(2) dr dev have "?c \<notin> closed s" by simp
      then have send: "websocket_send ?c (device_action_frame payload) s = Done ?s'"
        by (simp add: websocket_send_def)
      have "device_action_loop device_action (Suc i) ?s' =
              Done (?s'\<lparr>sent := sent ?s' @
                 map (\<lambda>c. (c, device_action_frame payload))
                   (filter (\<lambda>c. type (clients ?s' c) = Some DEVICE)
                      (drop (Suc i) (connected_clients ?s')))\<rparr>)"
        using "1.prems" dr by (intro "1.IH"(1) [OF True refl dev "1.prems"(1) send]) simp_all
      with True dev send dr "1.prems"(1) show ?thesis
        by (subst device_action_loop.simps) simp
    next
      case other: False
      have "device_action_loop device_action (Suc i) s =
              Done (s\<lparr>sent := sent s @
                 map (\<lambda>c. (c, device_action_frame payload))
                   (filter (\<lambda>c. type (clients s c) = Some DEVICE)
                      (drop (Suc i) (connected_clients s)))\<rparr>)"
        using "1.prems" dr by (intro "1.IH"(2) [OF True refl other]) simp_all
      with True other dr show ?thesis
        by (subst device_action_loop.simps) simp
    qed
  qed
qed

lemma comprehension_roster:
  "\<forall>c\<in>set xs. type (cl c) \<noteq> None \<Longrightarrow>
   comprehension (map (\<lambda>c. get_controller_information (cl c)) xs) =
     Inr (map (\<lambda>c. JObj [(''type'', JStr (client_type_value (the (type (cl c))))),
                           (''name'', name (cl c))]) xs)"
  by (induction xs) (auto simp: get_controller_information_def)

lemma client_fields_replaced:
  "(r :: ConnectedMeffecClient)\<lparr>type := t, name := n\<rparr> = \<lparr>type = t, name = n\<rparr>"
  by (cases r) simp

lemma disconnect_client_absent:
  "client \<notin> set (connected_clients s) \<Longrightarrow> disconnect_client client s = Raised ValueError s"
  by (simp add: disconnect_client_def list_remove_def and_then_def)

lemmas run_defs =
  Let_def connect_def server_information_def receive_def connection_closed_def
  handle_message_def authentication_envelope_def device_action_envelope_def
  available_effects_envelope_def authenticate_client_def get_client_type_def and_then_def
  send_connected_clients_to_controller_def get_controller_information_def
  run_finally_def disconnect_client_def list_remove_def websocket_send_def
  roster_frame_def send_effects_to_app_client_def effects_frame_def
  send_heartbeat_to_all_clients_def heartbeat_frame_def forward_device_action_def
  device_action_frame_def relay_message_to_all_clients_def process_information_def
  send_effects_to_all_connected_app_clients_def

section \<open>The authentication gate on a path without a token\<close>

text \<open>
  Claim C3. A handshake whose path carries the configured token is admitted, and one
  whose token differs, or whose path has no \<open>?token=$\<close> query at all, is answered with
  the unauthorized status. On the path \<open>/\<close>, which has no query, \<open>process_request\<close>
  returns no status: indexing the single piece of the split path raises \<open>IndexError\<close>,
  whatever the configured token is.
\<close>

theorem process_request_missing_token_raises:
  "process_request TOKEN ''/'' = Inl IndexError"
  by (simp add: process_request_def)

text \<open>
  The gate on any path: without a question mark there is nothing to index, and a path
  that ends in one \<open>?token=$\<close> query is admitted exactly when the text after it is the
  configured token.
\<close>

lemma py_split_no_question_mark:
  "CHR ''?'' \<notin> set s \<Longrightarrow> py_split ''?token=$'' cur s = [cur @ s]"
proof (induction s arbitrary: cur)
  case Nil
  show ?case by simp
next
  case (Cons c cs)
  from Cons.prems have "c \<noteq> CHR ''?''" and "CHR ''?'' \<notin> set cs" by auto
  with Cons.IH [of "cur @ [c]"] show ?case by auto
qed

lemma process_request_no_query:
  "CHR ''?'' \<notin> set path \<Longrightarrow> process_request TOKEN path = Inl IndexError"
  by (simp add: process_request_def py_split_no_question_mark)

lemma process_request_with_token:
  assumes "CHR ''?'' \<notin> set path" and "CHR ''?'' \<notin> set token"
  shows "process_request TOKEN (path @ ''?token=$'' @ token) =
         (if token = TOKEN then Inr None
          else Inr (Some (UNAUTHORIZED, [], ''Invalid or missing token'' @ [CHR 0x0A])))"
proof -
  have split: "py_split ''?token=$'' cur (path @ ''?token=$'' @ token) = [cur @ path, token]" for cur
    using assms(1)
  proof (induction path arbitrary: cur)
    case Nil
    show ?case using assms(2) by (simp add: py_split_no_question_mark)
  next
    case (Cons c cs)
    from Cons.prems have "c \<noteq> CHR ''?''" and "CHR ''?'' \<notin> set cs" by auto
    with Cons.IH [of "cur @ [c]"] show ?case by auto
  qed
  show ?thesis by (simp add: process_request_def split [of "[]", simplified])
qed

section \<open>Information envelopes that are not catalog updates\<close>

text \<open>
  Claim C10. An \<open>information\<close> envelope whose nested type is anything other than
  \<open>available_effects\<close> changes nothing: the round of the read loop that handles it
  returns the state it was given, so the catalog, the registry and the controller
  reference are as before and the log of sent frames has no new entry, and the session
  goes on reading.
\<close>

theorem information_other_type_changes_nothing:
  assumes "getitem message ''type'' = Inr (JStr ''information'')"
    and "getitem message ''data'' = Inr information"
    and "getitem information ''type'' = Inr t"
    and "t \<noteq> JStr ''available_effects''"
  shows "receive client message s = Continues s"
  using assms by (simp add: receive_def handle_message_def process_information_def)

theorem information_other_type_changes_nothing_witness:
  "receive 2
     (JObj [(''type'', JStr ''information''),
            (''data'', JObj [(''type'', JStr ''connected_clients''), (''data'', JList [])])])
     (connect 2 server_information)
   = Continues (connect 2 server_information)"
  using information_other_type_changes_nothing
    [of "JObj [(''type'', JStr ''information''),
               (''data'', JObj [(''type'', JStr ''connected_clients''), (''data'', JList [])])]"
        "JObj [(''type'', JStr ''connected_clients''), (''data'', JList [])]"
        "JStr ''connected_clients''" 2 "connect 2 server_information"]
  by simp

section \<open>Catalog updates and device actions when every send succeeds\<close>

text \<open>
  One catalog update handled alone, on a registry whose App sessions have open
  transports: the catalog is stored, and the frame carrying it is sent to every App
  session, in registry order, and to nobody else.
\<close>

lemma catalog_update_open_transports:
  assumes "getitem message ''type'' = Inr (JStr ''information'')"
    and "getitem message ''data'' = Inr information"
    and "getitem information ''type'' = Inr (JStr ''available_effects'')"
    and "getitem information ''data'' = Inr catalog"
    and "\<forall>c\<in>set (connected_clients s). type (clients s c) = Some APP \<longrightarrow> c \<notin> closed s"
  shows "receive sender message s =
         Continues (s\<lparr>available_effects := catalog,
                 sent := sent s @
                    map (\<lambda>c. (c, JObj [(''type'', JStr ''information''),
                                        (''data'', JObj [(''type'', JStr ''available_effects''),
                                                         (''data'', catalog)])]))
                      (filter (\<lambda>c. type (clients s c) = Some APP) (connected_clients s))\<rparr>)"
proof -
  let ?s1 = "s\<lparr>available_effects := catalog\<rparr>"
  have "effects_loop 0 ?s1 =
        Done (?s1\<lparr>sent := sent ?s1 @
                    map (\<lambda>c. (c, effects_frame (available_effects ?s1)))
                      (filter (\<lambda>c. type (clients ?s1 c) = Some APP)
                         (drop 0 (connected_clients ?s1)))\<rparr>)"
    using assms(5) by (intro effects_loop_open) simp
  with assms(1-4) show ?thesis
    by (simp add: receive_def handle_message_def process_information_def
          send_effects_to_all_connected_app_clients_def effects_frame_def)
qed

text \<open>
  The catalog is stored before anything is sent, so it is the received one at the end
  of the round even when a send raises and the round ends the session.
\<close>

lemma run_finally_catalog:
  "available_effects (session_state (run_finally e client s)) = available_effects s"
  by (auto simp: run_finally_def disconnect_client_def list_remove_def and_then_def
        send_connected_clients_to_controller_def websocket_send_def Let_def
      split: option.splits sum.splits)

lemma catalog_stored_whatever_the_sends_do:
  assumes "getitem message ''type'' = Inr (JStr ''information'')"
    and "getitem message ''data'' = Inr information"
    and "getitem information ''type'' = Inr (JStr ''available_effects'')"
    and "getitem information ''data'' = Inr catalog"
  shows "available_effects (session_state (receive sender message s)) = catalog"
proof -
  let ?r = "send_effects_to_all_connected_app_clients (s\<lparr>available_effects := catalog\<rparr>)"
  have stored: "available_effects (state_of ?r) = catalog"
    by (simp add: send_effects_to_all_connected_app_clients_def effects_loop_catalog)
  have handled: "handle_message sender message s = ?r"
    using assms by (simp add: handle_message_def process_information_def)
  show ?thesis
  proof (cases ?r)
    case (Done s')
    with stored handled show ?thesis by (simp add: receive_def)
  next
    case (Raised e s')
    with stored handled show ?thesis by (simp add: receive_def run_finally_catalog)
  qed
qed

text \<open>
  One device action handled alone, on a registry whose Device sessions have open
  transports: the frame of type \<open>device_action\<close> with the received data is sent to every
  Device session, in registry order, and to nobody else, whatever the \<open>device\<close> field and
  the names are.
\<close>

lemma device_action_open_transports:
  assumes "getitem message ''type'' = Inr (JStr ''device_action'')"
    and "getitem message ''data'' = Inr action"
    and "getitem action ''device'' = Inr device"
    and "getitem action ''data'' = Inr payload"
    and "\<forall>c\<in>set (connected_clients s). type (clients s c) = Some DEVICE \<longrightarrow> c \<notin> closed s"
  shows "receive sender message s =
         Continues (s\<lparr>sent := sent s @
                    map (\<lambda>c. (c, JObj [(''type'', JStr ''device_action''), (''data'', payload)]))
                      (filter (\<lambda>c. type (clients s c) = Some DEVICE) (connected_clients s))\<rparr>)"
proof -
  have "device_action_loop action 0 s =
        Done (s\<lparr>sent := sent s @
                    map (\<lambda>c. (c, device_action_frame payload))
                      (filter (\<lambda>c. type (clients s c) = Some DEVICE)
                         (drop 0 (connected_clients s)))\<rparr>)"
    using assms(4,5) by (intro device_action_loop_open) simp_all
  with assms(1-3) show ?thesis
    by (simp add: receive_def handle_message_def forward_device_action_def
          device_action_frame_def)
qed

section \<open>Authentication when every roster entry has a role\<close>

text \<open>
  A session that authenticates as controller on an open transport, while every other
  registered session has a role, becomes the controller reference, whoever held it
  before; the registry is unchanged, and the one frame sent is the roster, to the new
  controller.
\<close>

lemma controller_authentication_takes_over:
  assumes "B \<notin> closed s"
    and "\<forall>c\<in>set (connected_clients s). c \<noteq> B \<longrightarrow> type (clients s c) \<noteq> None"
    and "cl = (clients s)(B := \<lparr>type = Some CONTROLLER, name = n\<rparr>)"
  shows "receive B (authentication_envelope ''controller'' n) s =
         Continues (s\<lparr>clients := cl, controller_client := Some B,
                      sent := sent s @
                        [(B, roster_frame
                               (map (\<lambda>c. JObj [(''type'', JStr (client_type_value (the (type (cl c))))),
                                                 (''name'', name (cl c))])
                                  (connected_clients s)))]\<rparr>)"
proof -
  have "\<forall>c\<in>set (connected_clients s). type (cl c) \<noteq> None"
    using assms(2,3) by simp
  from comprehension_roster [OF this]
  show ?thesis
    using assms(1,3)
    by (simp add: receive_def handle_message_def authentication_envelope_def
          authenticate_client_def get_client_type_def and_then_def Let_def
          client_fields_replaced
          send_connected_clients_to_controller_def websocket_send_def)
qed

text \<open>
  An authentication with a role name that \<open>get_client_type\<close> does not know, while there
  is no controller: the name is stored, no role is assigned, nothing is sent and the
  session goes on reading.
\<close>

lemma unknown_role_without_controller:
  assumes "get_client_type role = None" and "controller_client s = None"
  shows "receive c (JObj [(''type'', JStr ''authentication''),
                          (''data'', JObj [(''type'', role), (''name'', n)])]) s =
         Continues (s\<lparr>clients := (clients s)(c := \<lparr>type = None, name = n\<rparr>)\<rparr>)"
  using assms
  by (simp add: receive_def handle_message_def authenticate_client_def and_then_def
        Let_def client_fields_replaced send_connected_clients_to_controller_def)

section \<open>Runs on which the server departs from its specification\<close>

text \<open>
  Each run below starts from the state of a freshly started server. A transport that
  dies silently is the update of \<open>closed\<close>; everything else is the code's own doing.
\<close>

text \<open>
  Claim C1. When session A and then session B each send an authentication envelope with
  the role \<open>controller\<close>, the controller reference is B afterwards, roster pushes go to
  B only, and A stays in the registry. In the run below A (websocket 1) and B
  (websocket 2) connect and then authenticate in that order. The roster push that
  follows A's authentication reads the role of B, which has none yet, and raises
  \<open>AttributeError\<close>; A's handler ends, its cleanup clears the controller reference and
  removes A. After B's authentication the controller reference is B, but A is no
  longer in the registry.
\<close>

theorem second_controller_first_one_removed:
  "let ra = receive 1 (authentication_envelope ''controller'' (JStr ''A''))
              (connect 2 (connect 1 server_information));
       rb = receive 2 (authentication_envelope ''controller'' (JStr ''B'')) (session_state ra)
   in (\<exists>s'. ra = Failed AttributeError s') \<and>
      controller_client (session_state ra) = None \<and>
      connected_clients (session_state ra) = [2] \<and>
      (\<exists>s'. rb = Continues s') \<and>
      controller_client (session_state rb) = Some 2 \<and>
      connected_clients (session_state rb) = [2]"
  by (simp add: run_defs)

text \<open>
  The same defect on B's side: A is the controller, B and a third session connect, and
  B authenticates while the third session has no role. B's handler ends with
  \<open>AttributeError\<close>, and the controller reference is empty afterwards.
\<close>

lemma second_controller_unassigned_bystander:
  "let sa = session_state (receive 1 (authentication_envelope ''controller'' (JStr ''A''))
              (connect 1 server_information));
       rb = receive 2 (authentication_envelope ''controller'' (JStr ''B''))
              (connect 3 (connect 2 sa))
   in controller_client sa = Some 1 \<and>
      (\<exists>s'. rb = Failed AttributeError s') \<and>
      controller_client (session_state rb) = None \<and>
      connected_clients (session_state rb) = [1, 3]"
  by (simp add: run_defs)

text \<open>
  Claim C2. Whenever a session of role Controller is removed from the registry, by
  whichever path, the controller reference is cleared before the next roster push. In
  the run below the controller (websocket 1) authenticates and its transport then dies.
  The heartbeat tick fails to send to it and calls \<open>disconnect_client\<close>, which removes
  it from the registry and pushes the roster to the controller reference, still
  websocket 1: the push raises \<open>ConnectionClosed\<close> out of the heartbeat loop, and the
  reference still names the removed session.
\<close>

theorem heartbeat_removal_keeps_controller_reference:
  "let s = session_state (receive 1 (authentication_envelope ''controller'' (JStr ''Controller''))
             (connect 1 server_information));
       r = send_heartbeat_to_all_clients (s\<lparr>closed := {1}\<rparr>)
   in controller_client s = Some 1 \<and>
      (\<exists>s'. r = Raised ConnectionClosed s') \<and>
      connected_clients (state_of r) = [] \<and>
      controller_client (state_of r) = Some 1"
  by (simp add: run_defs)

text \<open>
  The relay path: an app relays a \<open>play_effect\<close> envelope while the transport of the
  controller is closed. The controller is removed from the registry in the \<open>except\<close>
  branch, the reference to it stays, and the app itself, moved to the index already
  visited, is sent nothing.
\<close>

lemma relay_removal_keeps_controller_reference:
  "let s1 = session_state (receive 1 (authentication_envelope ''controller'' (JStr ''Controller''))
              (connect 1 server_information));
       s2 = session_state (receive 2 (authentication_envelope ''app'' (JStr ''tablet''))
              (connect 2 s1));
       r = receive 2 (JObj [(''type'', JStr ''play_effect''),
                            (''data'', JObj [(''category'', JStr ''weather''),
                                             (''name'', JStr ''thunder'')])])
             (s2\<lparr>closed := {1}\<rparr>)
   in connected_clients s2 = [1, 2] \<and>
      (\<exists>s'. r = Continues s') \<and>
      connected_clients (session_state r) = [2] \<and>
      controller_client (session_state r) = Some 1 \<and>
      sent (session_state r) = sent s2"
  by (simp add: run_defs)

text \<open>
  Claim C4. An authentication envelope with an unknown role assigns no role, leaves the
  session connected and registered, and raises nothing, also on the roster push that
  follows when a controller exists. In the run below a controller (websocket 1) is
  authenticated, and websocket 2 connects and authenticates with the role \<open>robot\<close>. No
  role is assigned and the controller reference is untouched, but the roster push
  raises \<open>AttributeError\<close> on the session without a role: the handler of websocket 2
  ends with that error and the session is removed from the registry.
\<close>

theorem unknown_role_ends_the_session:
  "let s = session_state (receive 1 (authentication_envelope ''controller'' (JStr ''Controller''))
             (connect 1 server_information));
       r = receive 2 (authentication_envelope ''robot'' (JStr ''R2'')) (connect 2 s)
   in (\<exists>s'. r = Failed AttributeError s') \<and>
      type (clients (session_state r) 2) = None \<and>
      controller_client (session_state r) = Some 1 \<and>
      connected_clients (session_state r) = [1]"
  by (simp add: run_defs)

text \<open>
  Claim C5. Removing a session that is not in the registry is a no-op that raises
  nothing. In the run below websocket 1 connects and its transport dies; the heartbeat
  tick removes it. When its read loop then sees the close, the cleanup calls
  \<open>disconnect_client\<close> a second time, and \<open>list.remove\<close> raises \<open>ValueError\<close>.
\<close>

theorem second_removal_raises:
  "let r = send_heartbeat_to_all_clients ((connect 1 server_information)\<lparr>closed := {1}\<rparr>)
   in (\<exists>s'. r = Done s') \<and>
      connected_clients (state_of r) = [] \<and>
      disconnect_client 1 (state_of r) = Raised ValueError (state_of r) \<and>
      (\<exists>s'. connection_closed 1 (state_of r) = Failed ValueError s')"
  by (simp add: run_defs)

text \<open>
  Claim C6. Each \<open>available_effects\<close> envelope replaces the stored catalog, and the new
  catalog is then sent to every session of role App in the registry. In the run below
  the controller (websocket 1) and two apps (websockets 2 and 3) are authenticated, and
  the transport of app 2 dies. The controller sends a catalog: it is stored, but the
  send to app 2 raises \<open>ConnectionClosed\<close>, which nothing in the catalog push catches. The
  loop ends there, so app 3, registered and with an open transport, is sent nothing;
  the exception ends the read loop of the controller, whose cleanup removes it.
\<close>

theorem catalog_push_stops_at_closed_app:
  "let s1 = session_state (receive 1 (authentication_envelope ''controller'' (JStr ''Controller''))
              (connect 1 server_information));
       s2 = session_state (receive 2 (authentication_envelope ''app'' (JStr ''tablet''))
              (connect 2 s1));
       s3 = session_state (receive 3 (authentication_envelope ''app'' (JStr ''phone''))
              (connect 3 s2));
       r = receive 1 (available_effects_envelope (JList [JStr ''thunder'']))
             (s3\<lparr>closed := {2}\<rparr>)
   in connected_clients s3 = [1, 2, 3] \<and>
      type (clients s3 3) = Some APP \<and>
      (\<exists>s'. r = Ended s') \<and>
      available_effects (session_state r) = JList [JStr ''thunder''] \<and>
      sent (session_state r) = sent s3 \<and>
      connected_clients (session_state r) = [2, 3] \<and>
      controller_client (session_state r) = None"
  by (simp add: run_defs effects_loop.simps)

text \<open>
  Claim C7. A \<open>device_action\<close> envelope is forwarded, with its data unchanged, to every
  session of role Device in the registry and to no other session. In the run below two
  devices (websockets 1 and 2, named fog and lamp) and the controller (websocket 3) are
  authenticated, and the transport of device 1 dies. The controller sends a device
  action for the lamp: the send to device 1 raises \<open>ConnectionClosed\<close>, the loop ends
  there, and device 2, registered and with an open transport, is sent nothing; the
  exception ends the read loop of the controller, whose cleanup removes it.
\<close>

theorem device_action_stops_at_closed_device:
  "let s1 = session_state (receive 1 (authentication_envelope ''device'' (JStr ''fog''))
              (connect 1 server_information));
       s2 = session_state (receive 2 (authentication_envelope ''device'' (JStr ''lamp''))
              (connect 2 s1));
       s3 = session_state (receive 3 (authentication_envelope ''controller'' (JStr ''Controller''))
              (connect 3 s2));
       r = receive 3 (device_action_envelope (JStr ''lamp'') (JObj [(''power'', JStr ''on'')]))
             (s3\<lparr>closed := {1}\<rparr>)
   in connected_clients s3 = [1, 2, 3] \<and>
      type (clients s3 2) = Some DEVICE \<and>
      (\<exists>s'. r = Ended s') \<and>
      sent (session_state r) = sent s3 \<and>
      connected_clients (session_state r) = [1, 2] \<and>
      controller_client (session_state r) = None"
  by (simp add: run_defs device_action_loop.simps)

text \<open>
  Claim C8. A send to a session whose transport has closed is caught on every send
  path, the failing session is removed, the roster is pushed again, and no other
  session's handling ends. In the run below the controller (websocket 1) and two devices
  (websockets 2 and 3) are authenticated, and the transport of device 2 dies. The
  controller sends a device action: the send to device 2 raises \<open>ConnectionClosed\<close>,
  which nothing in \<open>forward_device_action\<close> catches. It ends the read loop of the
  controller, whose cleanup clears the controller reference and removes the controller;
  device 2 stays in the registry, device 3 is sent nothing, and no roster is pushed.
\<close>

theorem device_send_failure_ends_the_sender:
  "let s1 = session_state (receive 1 (authentication_envelope ''controller'' (JStr ''Controller''))
              (connect 1 server_information));
       s2 = session_state (receive 2 (authentication_envelope ''device'' (JStr ''fog''))
              (connect 2 s1));
       s3 = session_state (receive 3 (authentication_envelope ''device'' (JStr ''lamp''))
              (connect 3 s2));
       r = receive 1 (device_action_envelope (JStr ''lamp'') (JStr ''on'')) (s3\<lparr>closed := {2}\<rparr>)
   in connected_clients s3 = [1, 2, 3] \<and>
      controller_client s3 = Some 1 \<and>
      (\<exists>s'. r = Ended s') \<and>
      connected_clients (session_state r) = [2, 3] \<and>
      controller_client (session_state r) = None \<and>
      sent (session_state r) = sent s3"
  by (simp add: run_defs device_action_loop.simps)

text \<open>
  Claim C9. A heartbeat tick sends to every session of a snapshot of the registry and
  removes every session whose send fails, also when several dead sessions are evicted
  in one tick. In the run below two devices (websockets 1 and 2) are authenticated and
  both transports die. The tick iterates over the registry itself: removing websocket 1
  moves websocket 2 to the index already visited, the loop ends, and websocket 2 is
  still registered after the tick. It goes at the next tick.
\<close>

theorem heartbeat_tick_skips_dead_session:
  "let s1 = session_state (receive 1 (authentication_envelope ''device'' (JStr ''fog''))
              (connect 1 server_information));
       s2 = session_state (receive 2 (authentication_envelope ''device'' (JStr ''lamp''))
              (connect 2 s1));
       r1 = send_heartbeat_to_all_clients (s2\<lparr>closed := {1, 2}\<rparr>);
       r2 = send_heartbeat_to_all_clients (state_of r1)
   in connected_clients s2 = [1, 2] \<and>
      (\<exists>s'. r1 = Done s') \<and>
      connected_clients (state_of r1) = [2] \<and>
      sent (state_of r1) = sent s2 \<and>
      connected_clients (state_of r2) = []"
  by (simp add: run_defs)

end
